theory Spec2Isabelle
  imports Main "HOL-Library.Sublist"
begin

section \<open>JavaScript values, objects and promises\<close>

text \<open>
  The exporter is TypeScript running on a JavaScript engine. The values that the code
  tests for truthiness (\<open>!!recursive\<close>, \<open>a || b\<close>, \<open>!id\<close>) are modelled by a small
  datatype; numbers are the integers (a poll interval is a number of milliseconds).
  Objects and arrays as option values, and \<open>NaN\<close>, are left out: no claim reads them.
\<close>

datatype jsval = JUndefined | JNull | JBool bool | JNum int | JStr string

fun truthy :: "jsval \<Rightarrow> bool" where
  "truthy JUndefined = False"
| "truthy JNull = False"
| "truthy (JBool b) = b"
| "truthy (JNum n) = (n \<noteq> 0)"
| "truthy (JStr s) = (s \<noteq> [])"

text \<open>\<open>a || b\<close> yields \<open>a\<close> when it is truthy and \<open>b\<close> otherwise.\<close>

definition js_or :: "jsval \<Rightarrow> jsval \<Rightarrow> jsval" where
  "js_or a b = (if truthy a then a else b)"

text \<open>
  A \<open>Config\<close> object is its own enumerable properties; reading a property that the object
  does not have gives \<open>undefined\<close>.
\<close>

type_synonym config = "string \<rightharpoonup> jsval"

definition getProp :: "config \<Rightarrow> string \<Rightarrow> jsval" where
  "getProp c k = (case c k of None \<Rightarrow> JUndefined | Some v \<Rightarrow> v)"

text \<open>
  Objects live in a store and are held by reference. The only object the exporter ever
  writes to is the module-level \<open>defaultConfig\<close> imported from \<open>./config\<close>; its initial
  content is a parameter of the model (the store the program starts from).
\<close>

type_synonym ref = nat
type_synonym heap = "ref \<Rightarrow> config"

definition defaultConfig :: ref where
  "defaultConfig = 0"

text \<open>
  \<open>Object.assign(target, source)\<close> copies the own properties of \<open>source\<close> into the object
  \<open>target\<close> refers to (nothing is copied from \<open>undefined\<close>) and returns \<open>target\<close> itself.
\<close>

definition object_assign :: "heap \<Rightarrow> ref \<Rightarrow> config option \<Rightarrow> ref \<times> heap" where
  "object_assign h target source =
     (target, (case source of None \<Rightarrow> h | Some s \<Rightarrow> h(target := h target ++ s)))"

text \<open>What a promise is rejected with, or what an async function throws.\<close>

datatype reason = Message string | Error string | TypeError string | AxiosError string

datatype 'a promise = Pending | Fulfilled 'a | Rejected reason

section \<open>Strings\<close>

text \<open>
  A JavaScript string is a sequence of UTF-16 code units. Where the program looks at the
  characters of a text that comes from outside (a token it trims, the decoded content of
  an archive entry it trims) the text is the list of its code units. The strings that the
  program only compares, tests for a fixed ending or concatenates (names, states,
  identifiers, messages) are \<open>string\<close>; \<open>ascii\<close> gives the code units of such a string.
\<close>

type_synonym utf16 = "nat list"

abbreviation ascii :: "string \<Rightarrow> utf16" where
  "ascii s \<equiv> map of_char s"

text \<open>
  \<open>String.prototype.trim\<close> removes white space and line terminators from both ends:
  the code points TAB, LF, VT, FF, CR, SPACE, U+00A0, U+1680, U+2000 to U+200A, U+2028,
  U+2029, U+202F, U+205F, U+3000 and U+FEFF (the byte order mark). All of them are single
  code units.
\<close>

definition is_space :: "nat \<Rightarrow> bool" where
  "is_space u =
     (u \<in> {9, 10, 11, 12, 13, 32, 160, 5760, 8232, 8233, 8239, 8287, 12288, 65279}
      \<or> (8192 \<le> u \<and> u \<le> 8202))"

definition trim :: "utf16 \<Rightarrow> utf16" where
  "trim s = rev (dropWhile is_space (rev (dropWhile is_space s)))"

definition endsWith :: "string \<Rightarrow> string \<Rightarrow> bool" where
  "endsWith s searchString =
     (length searchString \<le> length s \<and> drop (length s - length searchString) s = searchString)"

section \<open>The client\<close>

definition tokenV2Name :: string where
  "tokenV2Name = ''NOTION_TOKEN''"

definition fileTokenName :: string where
  "fileTokenName = ''NOTION_FILE_TOKEN''"

text \<open>
  \<open>arg?.trim() || process.env[envName]?.trim()\<close>: the trimmed argument when it is given and
  not blank, else the trimmed environment variable; a missing or blank token throws.
\<close>

definition argOrEnv :: "(string \<rightharpoonup> utf16) \<Rightarrow> string \<Rightarrow> utf16 option \<Rightarrow> reason + utf16" where
  "argOrEnv env envName arg =
     (let a = map_option trim arg;
          token = (if a \<noteq> None \<and> a \<noteq> Some [] then a else map_option trim (env envName))
      in case token of
           None \<Rightarrow> Inl (Error (''Missing '' @ envName))
         | Some t \<Rightarrow> if t = [] then Inl (Error (''Missing '' @ envName)) else Inr t)"

record axios =
  baseURL :: string
  Cookie :: utf16

record NotionExporter =
  client :: axios
  config :: ref

text \<open>
  The constructor. \<open>this.config = Object.assign(defaultConfig, config)\<close> writes the caller's
  options into the module-level object and keeps a reference to that same object.
\<close>

definition constructor ::
  "utf16 option \<Rightarrow> utf16 option \<Rightarrow> config option \<Rightarrow> (string \<rightharpoonup> utf16) \<Rightarrow> heap
     \<Rightarrow> reason + (NotionExporter \<times> heap)" where
  "constructor tokenV2 fileToken cfg env h =
     (case argOrEnv env tokenV2Name tokenV2 of
        Inl e \<Rightarrow> Inl e
      | Inr token \<Rightarrow>
         (case argOrEnv env fileTokenName fileToken of
            Inl e \<Rightarrow> Inl e
          | Inr fileTok \<Rightarrow>
             (case object_assign h defaultConfig cfg of
                (r, h') \<Rightarrow>
                  Inr (\<lparr> client = \<lparr> baseURL = ''https://www.notion.so/api/v3/'',
                                    Cookie = ascii ''token_v2='' @ token @ ascii '';file_token='' @ fileTok \<rparr>,
                         config = r \<rparr>, h'))))"

section \<open>Identifiers\<close>

text \<open>
  Modelled from the spec: the characters of an identifier (section 3: 32 hexadecimal
  characters, of either case on input), for the two functions of \<open>src/blockId.ts\<close>
  below, which is not among the sources.
\<close>

definition is_hex :: "char \<Rightarrow> bool" where
  "is_hex c = (c \<in> set ''0123456789abcdefABCDEF'')"

text \<open>
  Modelled from the spec: lowercasing, as section 4.1 normalises an identifier. Only the
  letters \<open>A\<close> to \<open>Z\<close> change.
\<close>

definition lower :: "char \<Rightarrow> char" where
  "lower c =
     (case map_of (zip ''ABCDEFGHIJKLMNOPQRSTUVWXYZ'' ''abcdefghijklmnopqrstuvwxyz'') c of
        Some l \<Rightarrow> l
      | None \<Rightarrow> c)"

text \<open>
  Modelled from the spec: the final path segment of a URL (section 4.1), the text after
  its last slash.
\<close>

definition final_segment :: "string \<Rightarrow> string" where
  "final_segment s = rev (takeWhile (\<lambda>c. c \<noteq> CHR ''/'') (rev s))"

text \<open>
  Modelled from the spec: the trailing token of a segment (section 4.1), read from the
  segment's end: dashes are passed over and hexadecimal characters
  are counted until \<open>n\<close> of them have been read; any other character before that, or the
  end of the segment, means that there is no trailing identifier.
\<close>

fun trailing_token :: "nat \<Rightarrow> string \<Rightarrow> string option" where
  "trailing_token 0 cs = Some []"
| "trailing_token (Suc n) [] = None"
| "trailing_token (Suc n) (c # cs) =
     (if c = CHR ''-'' then map_option (\<lambda>t. c # t) (trailing_token (Suc n) cs)
      else if is_hex c then map_option (\<lambda>t. c # t) (trailing_token n cs)
      else None)"

text \<open>
  Modelled from the spec: \<open>blockIdFromUrl\<close> of \<open>src/blockId.ts\<close>, which is not among the
  sources. Section 4.1: a bare identifier is passed on as it is; of a URL (an input with
  a path, that is with a slash) the final path segment is taken and, the leading slug
  text stripped, its trailing 32-hex-character token (with or without dashes) extracted.
\<close>

definition blockIdFromUrl :: "string \<Rightarrow> string option" where
  "blockIdFromUrl s =
     (if CHR ''/'' \<in> set s then map_option rev (trailing_token 32 (rev (final_segment s)))
      else Some s)"

text \<open>
  Modelled from the spec: \<open>validateUuid\<close> of \<open>src/blockId.ts\<close>, which is not among the
  sources. Section 4.1: an input that is 32 hexadecimal characters, with or without
  dashes, is normalised by removing the dashes and lowercasing; anything else is no
  identifier.
\<close>

definition validateUuid :: "string option \<Rightarrow> string option" where
  "validateUuid str =
     (case str of
        None \<Rightarrow> None
      | Some s \<Rightarrow>
         (let t = filter (\<lambda>c. c \<noteq> CHR ''-'') s
          in if length t = 32 \<and> list_all is_hex t then Some (map lower t) else None))"

text \<open>
  Modelled from the spec: what it is for an input to contain a syntactically valid
  identifier (sections 3 and 4.1). It does when some contiguous part of it is
  32 hexadecimal characters, with or without dashes between them.
\<close>

definition contains_id :: "string \<Rightarrow> bool" where
  "contains_id s =
     list_ex (\<lambda>u. list_all (\<lambda>c. is_hex c \<or> c = CHR ''-'') u \<and> length (filter is_hex u) = 32)
       (sublists s)"

section \<open>Requests, effects and runs\<close>

record exportBlock =
  block_id :: string
  recursive :: bool
  shouldExportComments :: bool
  exportOptions :: config

record enqueue =
  eventName :: string
  request :: exportBlock

record status =
  exportURL :: "string option"

record task =
  id_t :: string
  state :: string
  status :: status

text \<open>
  An archive entry: its \<open>name\<close>, and as \<open>data\<close> the text that
  \<open>getData().toString()\<close> decodes from its content.
\<close>

record entry =
  name :: string
  data :: utf16

type_synonym archive = "entry list"

datatype body = Task enqueue | TaskIds "string list"

text \<open>What one call does to the outside, in the order it does it.\<close>

datatype event =
  Post string body
| Get string
| SetTimeout jsval
| ConsoleError string task

text \<open>
  The run of an asynchronous call: the state its promise ends in, the effects it had, and
  the rejections of promises that nobody holds (an async callback that threw).
\<close>

record 'a run =
  outcome :: "'a promise"
  events :: "event list"
  unhandled :: "reason list"

text \<open>\<open>p.then(f)\<close>: \<open>f\<close> runs on the value \<open>p\<close> is fulfilled with; a rejection passes through.\<close>

definition then_run :: "'a run \<Rightarrow> ('a \<Rightarrow> 'b run) \<Rightarrow> 'b run" where
  "then_run r f =
     (case outcome r of
        Fulfilled x \<Rightarrow>
          (let r' = f x
           in \<lparr> outcome = outcome r', events = events r @ events r',
                unhandled = unhandled r @ unhandled r' \<rparr>)
      | Rejected e \<Rightarrow> \<lparr> outcome = Rejected e, events = events r, unhandled = unhandled r \<rparr>
      | Pending \<Rightarrow> \<lparr> outcome = Pending, events = events r, unhandled = unhandled r \<rparr>)"

text \<open>
  The remote service as one export call sees it: the answer to the \<open>enqueueTask\<close> post,
  the answers to the successive \<open>getTasks\<close> posts, and the answer to the download. An
  answer is the response's data, or the error the transport rejects with.
\<close>

record world =
  enqueueTask_res :: "reason + string"
  getTasks_res :: "(reason + task list) list"
  get_res :: "reason + archive"

section \<open>Task submission\<close>

text \<open>
  \<open>getTaskId\<close>: the identifier is checked first and a falsy one rejects without a request;
  otherwise \<open>recursive\<close> and \<open>pollInterval\<close> are taken out of the configuration and the rest
  is spread over \<open>{exportType: "markdown"}\<close>.
\<close>

definition getTaskId :: "heap \<Rightarrow> NotionExporter \<Rightarrow> string \<Rightarrow> (reason + string) \<Rightarrow> string run" where
  "getTaskId h this idOrUrl res =
     (case validateUuid (blockIdFromUrl idOrUrl) of
        None \<Rightarrow>
          \<lparr> outcome = Rejected (Message (''Invalid URL or blockId: '' @ idOrUrl)),
            events = [], unhandled = [] \<rparr>
      | Some i \<Rightarrow>
          if i = [] then
            \<lparr> outcome = Rejected (Message (''Invalid URL or blockId: '' @ idOrUrl)),
              events = [], unhandled = [] \<rparr>
          else
            (let c = h (config this);
                 rest = (\<lambda>k. if k = ''recursive'' \<or> k = ''pollInterval'' then None else c k);
                 b = \<lparr> eventName = ''exportBlock'',
                       request = \<lparr> block_id = i,
                                   recursive = truthy (getProp c ''recursive''),
                                   shouldExportComments = False,
                                   exportOptions = [''exportType'' \<mapsto> JStr ''markdown''] ++ rest \<rparr> \<rparr>
             in \<lparr> outcome = (case res of Inl e \<Rightarrow> Rejected e | Inr taskId \<Rightarrow> Fulfilled taskId),
                  events = [Post ''enqueueTask'' (Task b)], unhandled = [] \<rparr>))"

section \<open>The poll loop\<close>

text \<open>\<open>getTask\<close>: one \<open>getTasks\<close> post; \<open>find\<close> gives \<open>undefined\<close> when no record has the id.\<close>

definition getTask :: "string \<Rightarrow> (reason + task list) \<Rightarrow> task option run" where
  "getTask taskId res =
     \<lparr> outcome = (case res of
                    Inl e \<Rightarrow> Rejected e
                  | Inr results \<Rightarrow> Fulfilled (find (\<lambda>t. id_t t = taskId) results)),
       events = [Post ''getTasks'' (TaskIds [taskId])], unhandled = [] \<rparr>"

definition opt_str :: "string option \<Rightarrow> jsval" where
  "opt_str s = (case s of None \<Rightarrow> JUndefined | Some u \<Rightarrow> JStr u)"

text \<open>
  \<open>poll\<close>, run by a timer each time, over the answers the service will give. The promise
  that the async \<open>poll\<close> returns is held by nobody: when \<open>getTask\<close> rejects, or when
  \<open>task\<close> is \<open>undefined\<close> and \<open>task.state\<close> throws, neither \<open>resolve\<close> nor \<open>reject\<close> nor
  \<open>setTimeout\<close> is reached. With no answer left the timer is still waiting. (In the
  \<open>resolve\<close> branch the URL is truthy, so it is there: the \<open>None\<close> case is never taken.)
\<close>

fun poll :: "jsval \<Rightarrow> string \<Rightarrow> (reason + task list) list \<Rightarrow> string run" where
  "poll interval taskId [] = \<lparr> outcome = Pending, events = [], unhandled = [] \<rparr>"
| "poll interval taskId (res # ress) =
     (let g = getTask taskId res
      in case outcome g of
           Pending \<Rightarrow> \<lparr> outcome = Pending, events = events g, unhandled = [] \<rparr>
         | Rejected e \<Rightarrow> \<lparr> outcome = Pending, events = events g, unhandled = [e] \<rparr>
         | Fulfilled None \<Rightarrow>
             \<lparr> outcome = Pending, events = events g,
               unhandled = [TypeError ''Cannot read properties of undefined (reading 'state')''] \<rparr>
         | Fulfilled (Some task) \<Rightarrow>
             if state task = ''success'' \<and> truthy (opt_str (exportURL (status task))) then
               \<lparr> outcome = (case exportURL (status task) of
                               Some u \<Rightarrow> Fulfilled u
                             | None \<Rightarrow> Pending),
                 events = events g, unhandled = [] \<rparr>
             else if state task = ''in_progress'' \<or> state task = ''not_started'' then
               (let r = poll interval taskId ress
                in \<lparr> outcome = outcome r, events = events g @ SetTimeout interval # events r,
                     unhandled = unhandled r \<rparr>)
             else
               \<lparr> outcome = Rejected (Message (''Export task failed: '' @ taskId @ ''.'')),
                 events = events g @ [ConsoleError taskId task], unhandled = [] \<rparr>)"

definition pollTask ::
  "heap \<Rightarrow> NotionExporter \<Rightarrow> string \<Rightarrow> (reason + task list) list \<Rightarrow> string run" where
  "pollTask h this taskId ress =
     (let interval = js_or (getProp (h (config this)) ''pollInterval'')
                           (getProp (h defaultConfig) ''pollInterval'');
          r = poll interval taskId ress
      in \<lparr> outcome = outcome r, events = SetTimeout interval # events r,
           unhandled = unhandled r \<rparr>)"

section \<open>Download and extraction\<close>

definition getZipUrl :: "heap \<Rightarrow> NotionExporter \<Rightarrow> string \<Rightarrow> world \<Rightarrow> string run" where
  "getZipUrl h this idOrUrl w =
     then_run (getTaskId h this idOrUrl (enqueueTask_res w))
              (\<lambda>taskId. pollTask h this taskId (getTasks_res w))"

definition downloadZip :: "string \<Rightarrow> (reason + archive) \<Rightarrow> archive run" where
  "downloadZip url res =
     \<lparr> outcome = (case res of Inl e \<Rightarrow> Rejected e | Inr z \<Rightarrow> Fulfilled z),
       events = [Get url], unhandled = [] \<rparr>"

definition getZip :: "heap \<Rightarrow> NotionExporter \<Rightarrow> string \<Rightarrow> world \<Rightarrow> archive run" where
  "getZip h this idOrUrl w =
     then_run (getZipUrl h this idOrUrl w) (\<lambda>url. downloadZip url (get_res w))"

text \<open>
  \<open>getFileString\<close>: \<open>entry?.getData().toString().trim() || Promise.reject(...)\<close> rejects
  when \<open>find\<close> gave no entry and also when the trimmed text is the empty string.
\<close>

definition getFileString ::
  "heap \<Rightarrow> NotionExporter \<Rightarrow> string \<Rightarrow> (entry \<Rightarrow> bool) \<Rightarrow> world \<Rightarrow> utf16 run" where
  "getFileString h this idOrUrl predicate w =
     then_run (getZip h this idOrUrl w)
       (\<lambda>z. \<lparr> outcome =
                  (case find predicate z of
                     None \<Rightarrow> Rejected (Message ''Could not find file in ZIP.'')
                   | Some e \<Rightarrow>
                       if trim (data e) \<noteq> [] then Fulfilled (trim (data e))
                       else Rejected (Message ''Could not find file in ZIP.'')),
                events = [], unhandled = [] \<rparr>)"

definition getCsvString ::
  "heap \<Rightarrow> NotionExporter \<Rightarrow> string \<Rightarrow> bool option \<Rightarrow> world \<Rightarrow> utf16 run" where
  "getCsvString h this idOrUrl onlyCurrentView w =
     getFileString h this idOrUrl
       (\<lambda>e. endsWith (name e) (if onlyCurrentView = Some True then ''.csv'' else ''_all.csv'')) w"

definition getMdString :: "heap \<Rightarrow> NotionExporter \<Rightarrow> string \<Rightarrow> world \<Rightarrow> utf16 run" where
  "getMdString h this idOrUrl w =
     getFileString h this idOrUrl (\<lambda>e. endsWith (name e) ''.md'') w"

section \<open>Sample inputs\<close>

text \<open>
  A client as the constructor makes it, a well-formed block id, and a service on which
  the export succeeds at the first status query and the download gives the archive \<open>z\<close>.
\<close>

abbreviation an_exporter :: NotionExporter where
  "an_exporter \<equiv> \<lparr> client = \<lparr> baseURL = ''https://www.notion.so/api/v3/'',
                                  Cookie = ascii ''token_v2=tok;file_token=ftok'' \<rparr>,
                     config = defaultConfig \<rparr>"

abbreviation an_id :: string where
  "an_id \<equiv> ''83715d7703ee4b8699b5e659a4712dd8''"

abbreviation exported :: "archive \<Rightarrow> world" where
  "exported z \<equiv>
     \<lparr> enqueueTask_res = Inr ''T'',
       getTasks_res = [Inr [\<lparr> id_t = ''T'', state = ''success'',
                              status = \<lparr> exportURL = Some ''https://s3/x.zip'' \<rparr> \<rparr>]],
       get_res = Inr z \<rparr>"

section \<open>The poll loop, one answer at a time\<close>

lemma poll_Inl:
  "poll iv tid (Inl e # ress) =
     \<lparr> outcome = Pending, events = [Post ''getTasks'' (TaskIds [tid])], unhandled = [e] \<rparr>"
  by (simp add: getTask_def)

lemma poll_Inr:
  "poll iv tid (Inr results # ress) =
     (case find (\<lambda>t. id_t t = tid) results of
        None \<Rightarrow>
          \<lparr> outcome = Pending, events = [Post ''getTasks'' (TaskIds [tid])],
            unhandled = [TypeError ''Cannot read properties of undefined (reading 'state')''] \<rparr>
      | Some task \<Rightarrow>
          if state task = ''success'' \<and> truthy (opt_str (exportURL (status task))) then
            \<lparr> outcome = (case exportURL (status task) of Some u \<Rightarrow> Fulfilled u | None \<Rightarrow> Pending),
              events = [Post ''getTasks'' (TaskIds [tid])], unhandled = [] \<rparr>
          else if state task = ''in_progress'' \<or> state task = ''not_started'' then
            \<lparr> outcome = outcome (poll iv tid ress),
              events = Post ''getTasks'' (TaskIds [tid]) # SetTimeout iv # events (poll iv tid ress),
              unhandled = unhandled (poll iv tid ress) \<rparr>
          else
            \<lparr> outcome = Rejected (Message (''Export task failed: '' @ tid @ ''.'')),
              events = [Post ''getTasks'' (TaskIds [tid]), ConsoleError tid task], unhandled = [] \<rparr>)"
  by (simp add: getTask_def Let_def split: option.splits)

declare poll.simps(2) [simp del]

lemma constructor_Inr:
  assumes "constructor tokenV2 fileToken cfg env h0 = Inr (this, h)"
  shows "config this = defaultConfig"
    and "h = (case cfg of None \<Rightarrow> h0 | Some s \<Rightarrow> h0(defaultConfig := h0 defaultConfig ++ s))"
  using assms
  by (auto simp: constructor_def object_assign_def split: sum.splits)

lemma js_or_same: "js_or v v = v"
  by (simp add: js_or_def)

section \<open>Trimming\<close>

lemma trim_no_break_space: "trim [160] = []"
  by (simp add: trim_def is_space_def)

lemma trim_byte_order_mark: "trim (65279 # ascii ''a,b'' @ [10]) = ascii ''a,b''"
  by (simp add: trim_def is_space_def)

section \<open>Facts about the whole export\<close>

lemma an_id_valid: "validateUuid (blockIdFromUrl an_id) = Some an_id"
  by (simp add: validateUuid_def blockIdFromUrl_def is_hex_def lower_def)

lemma getTaskId_an_id:
  "outcome (getTaskId h this an_id (Inr t)) = Fulfilled t"
  "unhandled (getTaskId h this an_id (Inr t)) = []"
  by (simp_all add: getTaskId_def an_id_valid Let_def)

lemma outcome_then_run:
  "outcome (then_run r f) =
     (case outcome r of Fulfilled x \<Rightarrow> outcome (f x) | Rejected e \<Rightarrow> Rejected e | Pending \<Rightarrow> Pending)"
  by (simp add: then_run_def Let_def split: promise.splits)

lemma unhandled_then_run:
  "unhandled (then_run r f) =
     (case outcome r of Fulfilled x \<Rightarrow> unhandled r @ unhandled (f x) | Rejected e \<Rightarrow> unhandled r
      | Pending \<Rightarrow> unhandled r)"
  by (simp add: then_run_def Let_def split: promise.splits)

lemma getZip_exported: "outcome (getZip h this an_id (exported z)) = Fulfilled z"
  by (simp add: getZip_def getZipUrl_def outcome_then_run getTaskId_an_id pollTask_def
      poll_Inr opt_str_def Let_def downloadZip_def)

lemma outcome_getFileString:
  "outcome (getFileString h this idOrUrl predicate w) =
     (case outcome (getZip h this idOrUrl w) of
        Fulfilled z \<Rightarrow>
          (case find predicate z of
             None \<Rightarrow> Rejected (Message ''Could not find file in ZIP.'')
           | Some e \<Rightarrow>
               if trim (data e) \<noteq> [] then Fulfilled (trim (data e))
               else Rejected (Message ''Could not find file in ZIP.''))
      | Rejected e \<Rightarrow> Rejected e
      | Pending \<Rightarrow> Pending)"
  by (simp add: getFileString_def outcome_then_run split: promise.splits)

section \<open>Facts about identifiers\<close>

lemma validateUuid_length: "validateUuid x = Some i \<Longrightarrow> length i = 32"
  by (auto simp: validateUuid_def Let_def split: option.splits if_splits)

lemma lower_hex: "is_hex c \<Longrightarrow> lower c \<in> set ''0123456789abcdef''"
  unfolding is_hex_def by (simp, elim disjE) (simp_all add: lower_def)

lemma contains_id_iff:
  "contains_id s \<longleftrightarrow>
     (\<exists>u. sublist u s \<and> list_all (\<lambda>c. is_hex c \<or> c = CHR ''-'') u \<and> length (filter is_hex u) = 32)"
  by (auto simp: contains_id_def list_ex_iff)

lemma hex_or_dash:
  "list_all is_hex (filter (\<lambda>c. c \<noteq> CHR ''-'') s) \<Longrightarrow> list_all (\<lambda>c. is_hex c \<or> c = CHR ''-'') s"
  by (auto simp: list_all_iff)

lemma filter_dash_hex:
  "list_all (\<lambda>c. is_hex c \<or> c = CHR ''-'') s \<Longrightarrow> filter (\<lambda>c. c \<noteq> CHR ''-'') s = filter is_hex s"
  by (induction s) (auto simp: is_hex_def)

lemma validateUuid_Some:
  assumes "validateUuid (Some s) = Some i"
  shows "list_all (\<lambda>c. is_hex c \<or> c = CHR ''-'') s \<and> length (filter is_hex s) = 32"
proof -
  from assms have a: "length (filter (\<lambda>c. c \<noteq> CHR ''-'') s) = 32"
    and b: "list_all is_hex (filter (\<lambda>c. c \<noteq> CHR ''-'') s)"
    by (auto simp: validateUuid_def Let_def split: if_splits)
  from b have c: "list_all (\<lambda>c. is_hex c \<or> c = CHR ''-'') s" by (rule hex_or_dash)
  with a show ?thesis by (simp add: filter_dash_hex)
qed

lemma trailing_token_prefix:
  "trailing_token n cs = Some t \<Longrightarrow> \<exists>rest. cs = t @ rest"
  by (induction n cs arbitrary: t rule: trailing_token.induct) (auto split: if_splits)

lemma final_segment_suffix: "\<exists>pre. s = pre @ final_segment s"
proof -
  have "rev (takeWhile (\<lambda>c. c \<noteq> CHR ''/'') (rev s) @ dropWhile (\<lambda>c. c \<noteq> CHR ''/'') (rev s)) = s"
    by simp
  then have "rev (dropWhile (\<lambda>c. c \<noteq> CHR ''/'') (rev s)) @ final_segment s = s"
    unfolding rev_append final_segment_def .
  then have "s = rev (dropWhile (\<lambda>c. c \<noteq> CHR ''/'') (rev s)) @ final_segment s"
    by (rule sym)
  then show ?thesis ..
qed

lemma blockIdFromUrl_sublist:
  assumes "blockIdFromUrl s = Some u"
  shows "sublist u s"
proof (cases "CHR ''/'' \<in> set s")
  case False
  with assms show ?thesis by (simp add: blockIdFromUrl_def)
next
  case True
  with assms obtain t where t: "trailing_token 32 (rev (final_segment s)) = Some t" and u: "u = rev t"
    by (auto simp: blockIdFromUrl_def)
  from trailing_token_prefix [OF t] obtain rest where "rev (final_segment s) = t @ rest" ..
  then have "rev (rev (final_segment s)) = rev (t @ rest)" by (rule arg_cong)
  then have f: "final_segment s = rev rest @ u" using u by simp
  from final_segment_suffix obtain pre where "s = pre @ final_segment s" ..
  with f have "s = (pre @ rev rest) @ u" by simp
  then show ?thesis by (metis sublist_append_leftI)
qed

lemma resolver_contains_id:
  assumes "validateUuid (blockIdFromUrl s) = Some i"
  shows "contains_id s"
proof -
  from assms obtain u where u: "blockIdFromUrl s = Some u"
    by (cases "blockIdFromUrl s") (auto simp: validateUuid_def)
  with assms have "validateUuid (Some u) = Some i" by simp
  then have "list_all (\<lambda>c. is_hex c \<or> c = CHR ''-'') u \<and> length (filter is_hex u) = 32"
    by (rule validateUuid_Some)
  moreover from u have "sublist u s" by (rule blockIdFromUrl_sublist)
  ultimately show ?thesis unfolding contains_id_iff by blast
qed

lemma no_slash: "list_all (\<lambda>c. is_hex c \<or> c = CHR ''-'') s \<Longrightarrow> CHR ''/'' \<notin> set s"
  by (induction s) (auto simp: is_hex_def)

lemma resolve_bare:
  assumes "list_all (\<lambda>c. is_hex c \<or> c = CHR ''-'') s" and "length (filter is_hex s) = 32"
  shows "validateUuid (blockIdFromUrl s) = Some (map lower (filter is_hex s))"
proof -
  have "list_all is_hex (filter is_hex s)"
    by (simp add: list_all_iff)
  with assms show ?thesis
    by (simp add: validateUuid_def blockIdFromUrl_def no_slash filter_dash_hex Let_def)
qed

section \<open>What the poll loop can be rejected with\<close>

lemma getTaskId_valid:
  assumes "validateUuid (blockIdFromUrl idOrUrl) = Some i"
  shows "outcome (getTaskId h this idOrUrl (Inr t)) = Fulfilled t"
    and "unhandled (getTaskId h this idOrUrl (Inr t)) = []"
proof -
  from assms have "length i = 32" by (rule validateUuid_length)
  then have "i \<noteq> []" by auto
  with assms show "outcome (getTaskId h this idOrUrl (Inr t)) = Fulfilled t"
    and "unhandled (getTaskId h this idOrUrl (Inr t)) = []"
    by (simp_all add: getTaskId_def Let_def)
qed

lemma poll_retry:
  assumes "list_all (\<lambda>r. case find (\<lambda>t. id_t t = taskId) r of
                            None \<Rightarrow> False
                          | Some t \<Rightarrow> state t = ''in_progress'' \<or> state t = ''not_started'') pre"
  shows "outcome (poll iv taskId (map Inr pre @ rest)) = outcome (poll iv taskId rest)
       \<and> unhandled (poll iv taskId (map Inr pre @ rest)) = unhandled (poll iv taskId rest)"
  using assms
proof (induction pre)
  case Nil
  then show ?case by simp
next
  case (Cons r pre)
  then obtain t where "find (\<lambda>t. id_t t = taskId) r = Some t"
    and "state t = ''in_progress'' \<or> state t = ''not_started''"
    by (auto split: option.splits)
  with Cons show ?case
    by (auto simp: poll_Inr)
qed

lemma poll_Rejected:
  "outcome (poll iv taskId answers) = Rejected e \<Longrightarrow>
     e = Message (''Export task failed: '' @ taskId @ ''.'')
     \<and> (\<exists>results t. Inr results \<in> set answers \<and> t \<in> set results \<and> id_t t = taskId)"
proof (induction answers)
  case Nil
  then show ?case by simp
next
  case (Cons res answers)
  show ?case
  proof (cases res)
    case (Inl x)
    with Cons.prems show ?thesis by (simp add: poll_Inl)
  next
    case (Inr results)
    show ?thesis
    proof (cases "find (\<lambda>t. id_t t = taskId) results")
      case None
      with Inr Cons.prems show ?thesis by (simp add: poll_Inr)
    next
      case (Some t)
      then have m: "t \<in> set results \<and> id_t t = taskId"
        by (auto simp: find_Some_iff)
      from Cons.prems Inr Some
      have "e = Message (''Export task failed: '' @ taskId @ ''.'')
            \<or> outcome (poll iv taskId answers) = Rejected e"
        by (auto simp: poll_Inr split: if_splits option.splits)
      then show ?thesis
      proof
        assume "e = Message (''Export task failed: '' @ taskId @ ''.'')"
        with m Inr show ?thesis by auto
      next
        assume "outcome (poll iv taskId answers) = Rejected e"
        from Cons.IH [OF this] show ?thesis by auto
      qed
    qed
  qed
qed

section \<open>The claims\<close>

text \<open>
  C1. The claim: an error of a status query reaches the caller of the export as a failed
  operation at once. In the code the async \<open>poll\<close> runs from a timer and its promise is
  dropped, so when \<open>getTask\<close> rejects nothing calls \<open>reject\<close>. For a valid input: the
  task is enqueued, the status queries answer \<open>in_progress\<close> or \<open>not_started\<close> any number
  of times, the next one fails with \<open>e\<close>, and the promise of \<open>getZipUrl\<close> is never
  settled. The error is an unhandled rejection only, and no later answer of the service
  is asked for (the loop does not retry either).
\<close>

theorem getZipUrl_query_error_stays_pending:
  assumes "validateUuid (blockIdFromUrl idOrUrl) = Some i"
    and "list_all (\<lambda>r. case find (\<lambda>t. id_t t = taskId) r of
                          None \<Rightarrow> False
                        | Some t \<Rightarrow> state t = ''in_progress'' \<or> state t = ''not_started'') pre"
  shows "outcome (getZipUrl h this idOrUrl
            \<lparr> enqueueTask_res = Inr taskId, getTasks_res = map Inr pre @ Inl e # ress,
              get_res = d \<rparr>) = Pending
       \<and> unhandled (getZipUrl h this idOrUrl
            \<lparr> enqueueTask_res = Inr taskId, getTasks_res = map Inr pre @ Inl e # ress,
              get_res = d \<rparr>) = [e]"
  using poll_retry [OF assms(2), of _ "Inl e # ress"]
  by (simp add: getZipUrl_def outcome_then_run unhandled_then_run getTaskId_valid [OF assms(1)]
      pollTask_def poll_Inl Let_def)

theorem getZipUrl_query_error_stays_pending_witness:
  "outcome (getZipUrl (\<lambda>r. Map.empty) an_exporter an_id
      \<lparr> enqueueTask_res = Inr ''T'',
        getTasks_res =
          [Inr [\<lparr> id_t = ''T'', state = ''in_progress'', status = \<lparr> exportURL = None \<rparr> \<rparr>],
           Inl (AxiosError ''socket hang up''),
           Inr [\<lparr> id_t = ''T'', state = ''success'', status = \<lparr> exportURL = Some ''https://s3/x.zip'' \<rparr> \<rparr>]],
        get_res = Inr [] \<rparr>) = Pending
   \<and> unhandled (getZipUrl (\<lambda>r. Map.empty) an_exporter an_id
      \<lparr> enqueueTask_res = Inr ''T'',
        getTasks_res =
          [Inr [\<lparr> id_t = ''T'', state = ''in_progress'', status = \<lparr> exportURL = None \<rparr> \<rparr>],
           Inl (AxiosError ''socket hang up''),
           Inr [\<lparr> id_t = ''T'', state = ''success'', status = \<lparr> exportURL = Some ''https://s3/x.zip'' \<rparr> \<rparr>]],
        get_res = Inr [] \<rparr>) = [AxiosError ''socket hang up'']"
proof -
  let ?p = "\<lparr> id_t = ''T'', state = ''in_progress'', status = \<lparr> exportURL = None \<rparr> \<rparr>"
  have a: "list_all (\<lambda>r. case find (\<lambda>t. id_t t = ''T'') r of
                          None \<Rightarrow> False
                        | Some t \<Rightarrow> state t = ''in_progress'' \<or> state t = ''not_started'') [[?p]]"
    by simp
  from getZipUrl_query_error_stays_pending [OF an_id_valid a,
      of "\<lambda>r. Map.empty" an_exporter "AxiosError ''socket hang up''"
         "[Inr [\<lparr> id_t = ''T'', state = ''success'', status = \<lparr> exportURL = Some ''https://s3/x.zip'' \<rparr> \<rparr>]]"
         "Inr []"]
  show ?thesis by simp
qed

text \<open>
  C2. The claim: \<open>getFileString\<close> fails exactly when no entry satisfies the predicate, and
  returns the trimmed text of the first match even when that text is empty. In the code
  \<open>text || Promise.reject(...)\<close> takes the empty text for no entry: whenever the first
  entry of the downloaded archive that satisfies the predicate has a blank text, the call
  is rejected with the not-found message.
\<close>

theorem getFileString_blank_entry_rejected:
  assumes "outcome (getZip h this idOrUrl w) = Fulfilled z"
    and "find predicate z = Some e" and "trim (data e) = []"
  shows "outcome (getFileString h this idOrUrl predicate w)
           = Rejected (Message ''Could not find file in ZIP.'')"
  using assms by (simp add: outcome_getFileString)

theorem getFileString_blank_entry_rejected_witness:
  "find (\<lambda>e. endsWith (name e) ''.md'') [\<lparr> name = ''page.md'', data = ascii '' '' \<rparr>]
     = Some \<lparr> name = ''page.md'', data = ascii '' '' \<rparr>
   \<and> outcome (getFileString (\<lambda>r. Map.empty) an_exporter an_id (\<lambda>e. endsWith (name e) ''.md'')
        (exported [\<lparr> name = ''page.md'', data = ascii '' '' \<rparr>]))
     = Rejected (Message ''Could not find file in ZIP.'')"
proof -
  have f: "find (\<lambda>e. endsWith (name e) ''.md'') [\<lparr> name = ''page.md'', data = ascii '' '' \<rparr>]
             = Some \<lparr> name = ''page.md'', data = ascii '' '' \<rparr>"
    by (simp add: endsWith_def)
  have t: "trim (data \<lparr> name = ''page.md'', data = ascii '' '' \<rparr>) = []"
    by (simp add: trim_def is_space_def)
  from getFileString_blank_entry_rejected [OF getZip_exported f t] f
  show ?thesis by simp
qed

text \<open>
  C3, as stated, fails: with \<open>table_all.csv\<close> before \<open>view_current.csv\<close> in the archive,
  \<open>getCsvString(true)\<close> gives the text of \<open>table_all.csv\<close>, whose name also ends in
  \<open>.csv\<close>.
\<close>

theorem getCsvString_order_counterexample:
  "outcome (getCsvString (\<lambda>r. Map.empty) an_exporter an_id (Some True)
      (exported [\<lparr> name = ''table_all.csv'', data = ascii ''all'' \<rparr>,
                 \<lparr> name = ''view_current.csv'', data = ascii ''current'' \<rparr>]))
     = Fulfilled (ascii ''all'')
   \<and> outcome (getCsvString (\<lambda>r. Map.empty) an_exporter an_id (Some True)
      (exported [\<lparr> name = ''table_all.csv'', data = ascii ''all'' \<rparr>,
                 \<lparr> name = ''view_current.csv'', data = ascii ''current'' \<rparr>]))
     \<noteq> Fulfilled (ascii ''current'')"
  by (simp add: getCsvString_def outcome_getFileString getZip_exported endsWith_def trim_def
      is_space_def)

text \<open>
  C3, amended. \<open>getCsvString(true)\<close> returns the trimmed text of the first entry whose
  name ends in \<open>.csv\<close>, and \<open>getCsvString(false)\<close> (or without the flag) that of the first
  entry whose name ends in \<open>_all.csv\<close>. So in a downloaded archive where
  \<open>view_current.csv\<close> is the first entry with a \<open>.csv\<close> name and \<open>table_all.csv\<close> the first
  with an \<open>_all.csv\<close> name, and neither text is blank, the first call gives the trimmed
  text of \<open>view_current.csv\<close> and the second that of \<open>table_all.csv\<close>.
\<close>

theorem getCsvString_first_match:
  assumes "outcome (getZip h this idOrUrl w) = Fulfilled z"
    and "find (\<lambda>e. endsWith (name e) ''.csv'') z = Some v"
    and "name v = ''view_current.csv''" and "trim (data v) \<noteq> []"
    and "find (\<lambda>e. endsWith (name e) ''_all.csv'') z = Some a"
    and "name a = ''table_all.csv''" and "trim (data a) \<noteq> []"
  shows "outcome (getCsvString h this idOrUrl (Some True) w) = Fulfilled (trim (data v))
       \<and> outcome (getCsvString h this idOrUrl (Some False) w) = Fulfilled (trim (data a))
       \<and> outcome (getCsvString h this idOrUrl None w) = Fulfilled (trim (data a))"
  using assms by (simp add: getCsvString_def outcome_getFileString)

theorem getCsvString_first_match_witness:
  "outcome (getCsvString (\<lambda>r. Map.empty) an_exporter an_id (Some True)
      (exported [\<lparr> name = ''view_current.csv'', data = ascii ''current '' \<rparr>,
                 \<lparr> name = ''table_all.csv'', data = ascii ''all'' \<rparr>]))
     = Fulfilled (ascii ''current'')
   \<and> outcome (getCsvString (\<lambda>r. Map.empty) an_exporter an_id (Some False)
      (exported [\<lparr> name = ''view_current.csv'', data = ascii ''current '' \<rparr>,
                 \<lparr> name = ''table_all.csv'', data = ascii ''all'' \<rparr>]))
     = Fulfilled (ascii ''all'')"
  using getCsvString_first_match [of "\<lambda>r. Map.empty" an_exporter an_id
      "exported [\<lparr> name = ''view_current.csv'', data = ascii ''current '' \<rparr>,
                 \<lparr> name = ''table_all.csv'', data = ascii ''all'' \<rparr>]"
      "[\<lparr> name = ''view_current.csv'', data = ascii ''current '' \<rparr>,
        \<lparr> name = ''table_all.csv'', data = ascii ''all'' \<rparr>]"
      "\<lparr> name = ''view_current.csv'', data = ascii ''current '' \<rparr>"
      "\<lparr> name = ''table_all.csv'', data = ascii ''all'' \<rparr>"]
  by (simp add: getZip_exported endsWith_def trim_def is_space_def)

text \<open>
  C4. The claim: the constructor merges the options over the defaults without state
  shared between clients, so a second client made without overrides still sees the
  original defaults. In the code \<open>Object.assign(defaultConfig, config)\<close> writes into the
  module-level object and every client holds that one object: after a first client is
  made with the options \<open>c1\<close>, a second client made with no options has the same
  configuration object as the first, and it and \<open>defaultConfig\<close> hold the original
  defaults overwritten by \<open>c1\<close>.
\<close>

theorem constructor_overrides_reach_next_client:
  assumes "constructor tokenV2 fileToken (Some c1) env h0 = Inr (a, h1)"
    and "constructor tokenV2' fileToken' None env' h1 = Inr (b, h2)"
  shows "config b = config a
       \<and> h2 (config b) = h0 defaultConfig ++ c1
       \<and> h2 defaultConfig = h0 defaultConfig ++ c1"
  using constructor_Inr [OF assms(1)] constructor_Inr [OF assms(2)] by simp

theorem constructor_overrides_reach_next_client_witness:
  "constructor (Some (ascii ''tok'')) (Some (ascii ''ftok'')) (Some [''pollInterval'' \<mapsto> JNum 500]) Map.empty
       (\<lambda>r. [''recursive'' \<mapsto> JBool False, ''pollInterval'' \<mapsto> JNum 2000])
     = Inr (an_exporter,
            (\<lambda>r. [''recursive'' \<mapsto> JBool False, ''pollInterval'' \<mapsto> JNum 2000])
              (defaultConfig := [''recursive'' \<mapsto> JBool False, ''pollInterval'' \<mapsto> JNum 2000]
                                  ++ [''pollInterval'' \<mapsto> JNum 500]))
   \<and> constructor (Some (ascii ''tok'')) (Some (ascii ''ftok'')) None Map.empty
       ((\<lambda>r. [''recursive'' \<mapsto> JBool False, ''pollInterval'' \<mapsto> JNum 2000])
          (defaultConfig := [''recursive'' \<mapsto> JBool False, ''pollInterval'' \<mapsto> JNum 2000]
                              ++ [''pollInterval'' \<mapsto> JNum 500]))
     = Inr (an_exporter,
            (\<lambda>r. [''recursive'' \<mapsto> JBool False, ''pollInterval'' \<mapsto> JNum 2000])
              (defaultConfig := [''recursive'' \<mapsto> JBool False, ''pollInterval'' \<mapsto> JNum 2000]
                                  ++ [''pollInterval'' \<mapsto> JNum 500]))
   \<and> getProp (((\<lambda>r. [''recursive'' \<mapsto> JBool False, ''pollInterval'' \<mapsto> JNum 2000])
          (defaultConfig := [''recursive'' \<mapsto> JBool False, ''pollInterval'' \<mapsto> JNum 2000]
                              ++ [''pollInterval'' \<mapsto> JNum 500])) (config an_exporter))
        ''pollInterval'' = JNum 500"
proof -
  let ?d = "[''recursive'' \<mapsto> JBool False, ''pollInterval'' \<mapsto> JNum 2000]"
  let ?init = "\<lambda>r::ref. ?d"
  let ?after = "?init(defaultConfig := ?d ++ [''pollInterval'' \<mapsto> JNum 500])"
  have c1: "constructor (Some (ascii ''tok'')) (Some (ascii ''ftok'')) (Some [''pollInterval'' \<mapsto> JNum 500])
              Map.empty ?init = Inr (an_exporter, ?after)"
    by (simp add: constructor_def argOrEnv_def trim_def is_space_def object_assign_def
          tokenV2Name_def fileTokenName_def)
  have c2: "constructor (Some (ascii ''tok'')) (Some (ascii ''ftok'')) None Map.empty ?after
              = Inr (an_exporter, ?after)"
    by (simp add: constructor_def argOrEnv_def trim_def is_space_def object_assign_def
          tokenV2Name_def fileTokenName_def)
  from constructor_overrides_reach_next_client [OF c1 c2]
  have "?after (config an_exporter) = ?init defaultConfig ++ [''pollInterval'' \<mapsto> JNum 500]"
    by (elim conjE)
  then have g: "getProp (?after (config an_exporter)) ''pollInterval'' = JNum 500"
    by (simp add: getProp_def)
  from c1 c2 g show ?thesis
    by (intro conjI)
qed

text \<open>
  C5. A task whose status queries report \<open>in_progress\<close>, \<open>in_progress\<close> and then
  \<open>success\<close> with an export URL (a non-empty string, which is what the code's truthiness
  test takes for present) is polled exactly three times by a client made by the
  constructor: each \<open>getTasks\<close> post comes after a timer set to the client's configured
  \<open>pollInterval\<close>, and the promise is fulfilled with that URL, whatever the service
  would have answered afterwards.
\<close>

theorem pollTask_three_queries:
  assumes "constructor tokenV2 fileToken cfg env h0 = Inr (this, h)"
    and "find (\<lambda>t. id_t t = taskId) r1 = Some t1" and "state t1 = ''in_progress''"
    and "find (\<lambda>t. id_t t = taskId) r2 = Some t2" and "state t2 = ''in_progress''"
    and "find (\<lambda>t. id_t t = taskId) r3 = Some t3" and "state t3 = ''success''"
    and "exportURL (status t3) = Some url" and "url \<noteq> []"
  shows "pollTask h this taskId (Inr r1 # Inr r2 # Inr r3 # ress) =
           \<lparr> outcome = Fulfilled url,
             events = [SetTimeout (getProp (h (config this)) ''pollInterval''),
                       Post ''getTasks'' (TaskIds [taskId]),
                       SetTimeout (getProp (h (config this)) ''pollInterval''),
                       Post ''getTasks'' (TaskIds [taskId]),
                       SetTimeout (getProp (h (config this)) ''pollInterval''),
                       Post ''getTasks'' (TaskIds [taskId])],
             unhandled = [] \<rparr>"
proof -
  have c: "config this = defaultConfig"
    using assms(1) by (rule constructor_Inr)
  show ?thesis
    using assms(2-) by (simp add: pollTask_def poll_Inr c js_or_same opt_str_def Let_def)
qed


theorem pollTask_three_queries_witness:
  "constructor (Some (ascii ''tok'')) (Some (ascii ''ftok'')) (Some [''pollInterval'' \<mapsto> JNum 500]) Map.empty
       (\<lambda>r. [''pollInterval'' \<mapsto> JNum 2000])
     = Inr (\<lparr> client = \<lparr> baseURL = ''https://www.notion.so/api/v3/'',
                           Cookie = ascii ''token_v2=tok;file_token=ftok'' \<rparr>,
                config = defaultConfig \<rparr>,
            (\<lambda>r. [''pollInterval'' \<mapsto> JNum 2000])
              (defaultConfig := [''pollInterval'' \<mapsto> JNum 2000] ++ [''pollInterval'' \<mapsto> JNum 500]))
   \<and> pollTask ((\<lambda>r. [''pollInterval'' \<mapsto> JNum 2000])
              (defaultConfig := [''pollInterval'' \<mapsto> JNum 2000] ++ [''pollInterval'' \<mapsto> JNum 500]))
        \<lparr> client = \<lparr> baseURL = ''https://www.notion.so/api/v3/'',
                     Cookie = ascii ''token_v2=tok;file_token=ftok'' \<rparr>,
          config = defaultConfig \<rparr>
        ''T''
        [Inr [\<lparr> id_t = ''T'', state = ''in_progress'', status = \<lparr> exportURL = None \<rparr> \<rparr>],
         Inr [\<lparr> id_t = ''T'', state = ''in_progress'', status = \<lparr> exportURL = None \<rparr> \<rparr>],
         Inr [\<lparr> id_t = ''T'', state = ''success'', status = \<lparr> exportURL = Some ''https://s3/x.zip'' \<rparr> \<rparr>]]
     = \<lparr> outcome = Fulfilled ''https://s3/x.zip'',
         events = [SetTimeout (JNum 500), Post ''getTasks'' (TaskIds [''T'']),
                   SetTimeout (JNum 500), Post ''getTasks'' (TaskIds [''T'']),
                   SetTimeout (JNum 500), Post ''getTasks'' (TaskIds [''T''])],
         unhandled = [] \<rparr>"
proof -
  let ?init = "\<lambda>r::ref. [''pollInterval'' \<mapsto> JNum 2000]"
  let ?ex = "\<lparr> client = \<lparr> baseURL = ''https://www.notion.so/api/v3/'',
                           Cookie = ascii ''token_v2=tok;file_token=ftok'' \<rparr>,
                config = defaultConfig \<rparr>"
  let ?h = "?init(defaultConfig := [''pollInterval'' \<mapsto> JNum 2000] ++ [''pollInterval'' \<mapsto> JNum 500])"
  let ?p = "\<lparr> id_t = ''T'', state = ''in_progress'', status = \<lparr> exportURL = None \<rparr> \<rparr>"
  let ?s = "\<lparr> id_t = ''T'', state = ''success'', status = \<lparr> exportURL = Some ''https://s3/x.zip'' \<rparr> \<rparr>"
  have c: "constructor (Some (ascii ''tok'')) (Some (ascii ''ftok'')) (Some [''pollInterval'' \<mapsto> JNum 500]) Map.empty ?init
             = Inr (?ex, ?h)"
    by (simp add: constructor_def argOrEnv_def trim_def is_space_def object_assign_def
          tokenV2Name_def fileTokenName_def)
  have q: "pollTask ?h ?ex ''T'' [Inr [?p], Inr [?p], Inr [?s]] =
          \<lparr> outcome = Fulfilled ''https://s3/x.zip'',
            events = [SetTimeout (getProp (?h (config ?ex)) ''pollInterval''),
                      Post ''getTasks'' (TaskIds [''T'']),
                      SetTimeout (getProp (?h (config ?ex)) ''pollInterval''),
                      Post ''getTasks'' (TaskIds [''T'']),
                      SetTimeout (getProp (?h (config ?ex)) ''pollInterval''),
                      Post ''getTasks'' (TaskIds [''T''])],
            unhandled = [] \<rparr>"
    by (rule pollTask_three_queries [OF c, where ?t1.0 = ?p and ?t2.0 = ?p and ?t3.0 = ?s]) simp_all
  have v: "getProp (?h (config ?ex)) ''pollInterval'' = JNum 500"
    by (simp add: getProp_def)
  show ?thesis
    using c q unfolding v by (rule conjI)
qed

text \<open>
  C6. For every configuration the client holds and every input with a valid identifier,
  \<open>getTaskId\<close> issues one \<open>enqueueTask\<close> post whose body has the event name
  \<open>exportBlock\<close>, the normalised block id, \<open>recursive\<close> as the truthiness of the configured
  value (false when the option is absent) and \<open>shouldExportComments: false\<close>; its export
  options have neither \<open>pollInterval\<close> nor \<open>recursive\<close>, carry every other option of the
  configuration unchanged, and have \<open>exportType\<close> \<open>markdown\<close> when the configuration does
  not set it.
\<close>

theorem getTaskId_request_body:
  assumes "validateUuid (blockIdFromUrl idOrUrl) = Some i"
  shows "\<exists>b. events (getTaskId h this idOrUrl res) = [Post ''enqueueTask'' (Task b)]
           \<and> eventName b = ''exportBlock''
           \<and> block_id (request b) = i
           \<and> recursive (request b) = truthy (getProp (h (config this)) ''recursive'')
           \<and> (h (config this) ''recursive'' = None \<longrightarrow> \<not> recursive (request b))
           \<and> \<not> shouldExportComments (request b)
           \<and> exportOptions (request b) ''pollInterval'' = None
           \<and> exportOptions (request b) ''recursive'' = None
           \<and> (\<forall>k v. k \<noteq> ''recursive'' \<longrightarrow> k \<noteq> ''pollInterval'' \<longrightarrow> h (config this) k = Some v
                  \<longrightarrow> exportOptions (request b) k = Some v)
           \<and> (h (config this) ''exportType'' = None
                  \<longrightarrow> exportOptions (request b) ''exportType'' = Some (JStr ''markdown''))
           \<and> dom (exportOptions (request b))
               = insert ''exportType'' (dom (h (config this)) - {''recursive'', ''pollInterval''})"
proof -
  from assms have "length i = 32" by (rule validateUuid_length)
  then have ne: "i \<noteq> []" by auto
  show ?thesis
    using assms ne
    by (auto simp: getTaskId_def Let_def getProp_def map_add_def dom_def split: option.splits if_splits)
qed

theorem getTaskId_request_body_witness:
  "(\<exists>b. events (getTaskId
             (\<lambda>r. [''recursive'' \<mapsto> JBool True, ''pollInterval'' \<mapsto> JNum 500,
                    ''timeZone'' \<mapsto> JStr ''UTC''])
             an_exporter an_id (Inr ''T''))
          = [Post ''enqueueTask'' (Task b)]
        \<and> block_id (request b) = an_id
        \<and> recursive (request b)
        \<and> exportOptions (request b) ''pollInterval'' = None
        \<and> exportOptions (request b) ''timeZone'' = Some (JStr ''UTC'')
        \<and> exportOptions (request b) ''exportType'' = Some (JStr ''markdown''))
   \<and> (\<exists>b. events (getTaskId (\<lambda>r. Map.empty) an_exporter an_id (Inr ''T''))
          = [Post ''enqueueTask'' (Task b)]
        \<and> \<not> recursive (request b))"
proof
  let ?h = "\<lambda>r::ref. [''recursive'' \<mapsto> JBool True, ''pollInterval'' \<mapsto> JNum 500,
                         ''timeZone'' \<mapsto> JStr ''UTC'']"
  from getTaskId_request_body [OF an_id_valid, of ?h an_exporter "Inr ''T''"]
  obtain b where e: "events (getTaskId ?h an_exporter an_id (Inr ''T'')) = [Post ''enqueueTask'' (Task b)]"
    and i: "block_id (request b) = an_id"
    and r: "recursive (request b) = truthy (getProp (?h (config an_exporter)) ''recursive'')"
    and p: "exportOptions (request b) ''pollInterval'' = None"
    and k: "\<forall>k v. k \<noteq> ''recursive'' \<longrightarrow> k \<noteq> ''pollInterval'' \<longrightarrow> ?h (config an_exporter) k = Some v
                  \<longrightarrow> exportOptions (request b) k = Some v"
    and t: "?h (config an_exporter) ''exportType'' = None
                  \<longrightarrow> exportOptions (request b) ''exportType'' = Some (JStr ''markdown'')"
    by (elim exE conjE)
  from r have r': "recursive (request b)"
    by (simp add: getProp_def)
  from k [rule_format, of "''timeZone''" "JStr ''UTC''"]
  have z: "exportOptions (request b) ''timeZone'' = Some (JStr ''UTC'')"
    by simp
  from t have m: "exportOptions (request b) ''exportType'' = Some (JStr ''markdown'')"
    by simp
  from e i r' p z m
  show "\<exists>b. events (getTaskId ?h an_exporter an_id (Inr ''T'')) = [Post ''enqueueTask'' (Task b)]
        \<and> block_id (request b) = an_id
        \<and> recursive (request b)
        \<and> exportOptions (request b) ''pollInterval'' = None
        \<and> exportOptions (request b) ''timeZone'' = Some (JStr ''UTC'')
        \<and> exportOptions (request b) ''exportType'' = Some (JStr ''markdown'')"
    by (intro exI [of _ b] conjI)
next
  let ?h = "\<lambda>r::ref. (Map.empty :: config)"
  from getTaskId_request_body [OF an_id_valid, of ?h an_exporter "Inr ''T''"]
  obtain b where e: "events (getTaskId ?h an_exporter an_id (Inr ''T'')) = [Post ''enqueueTask'' (Task b)]"
    and n: "?h (config an_exporter) ''recursive'' = None \<longrightarrow> \<not> recursive (request b)"
    by (elim exE conjE)
  from n have "\<not> recursive (request b)" by simp
  with e show "\<exists>b. events (getTaskId ?h an_exporter an_id (Inr ''T'')) = [Post ''enqueueTask'' (Task b)]
        \<and> \<not> recursive (request b)"
    by (intro exI [of _ b] conjI)
qed

text \<open>
  C7, as stated, fails: the promise is rejected with the string
  \<open>Export task failed: <taskId>.\<close> and nothing else. Two different last observed records
  of task \<open>T\<close> (state \<open>failure\<close>; state \<open>success\<close> without a URL) give the same error, so
  the error does not carry the status payload.
\<close>

theorem poll_error_without_payload_counterexample:
  "outcome (poll (JNum 2000) ''T''
      [Inr [\<lparr> id_t = ''T'', state = ''failure'', status = \<lparr> exportURL = None \<rparr> \<rparr>]])
     = Rejected (Message ''Export task failed: T.'')
   \<and> outcome (poll (JNum 2000) ''T''
      [Inr [\<lparr> id_t = ''T'', state = ''success'', status = \<lparr> exportURL = None \<rparr> \<rparr>]])
     = Rejected (Message ''Export task failed: T.'')
   \<and> \<lparr> id_t = ''T'', state = ''failure'', status = \<lparr> exportURL = None \<rparr> \<rparr>
       \<noteq> \<lparr> id_t = ''T'', state = ''success'', status = \<lparr> exportURL = None \<rparr> \<rparr>"
  by (simp add: poll_Inr opt_str_def)

text \<open>
  C7, amended. A poll iteration that observes a task record whose state is \<open>success\<close>
  without a present (non-empty) export URL, or whose state is none of \<open>not_started\<close>,
  \<open>in_progress\<close> and \<open>success\<close>, ends the loop: after the status query the task identifier
  and the observed record are written to the error console, and the promise is rejected
  with the message \<open>Export task failed: <taskId>.\<close>, which carries the task identifier.
  No further query is made, whatever the service would answer.
\<close>

theorem poll_terminal_failure:
  assumes "find (\<lambda>t. id_t t = taskId) results = Some t"
    and "state t = ''success'' \<and> (exportURL (status t) = None \<or> exportURL (status t) = Some [])
         \<or> state t \<notin> {''not_started'', ''in_progress'', ''success''}"
  shows "poll iv taskId (Inr results # ress) =
           \<lparr> outcome = Rejected (Message (''Export task failed: '' @ taskId @ ''.'')),
             events = [Post ''getTasks'' (TaskIds [taskId]), ConsoleError taskId t],
             unhandled = [] \<rparr>"
  using assms by (auto simp: poll_Inr opt_str_def)

theorem poll_terminal_failure_witness:
  "poll (JNum 2000) ''T''
     (Inr [\<lparr> id_t = ''T'', state = ''success'', status = \<lparr> exportURL = None \<rparr> \<rparr>] #
      [Inr [\<lparr> id_t = ''T'', state = ''success'', status = \<lparr> exportURL = Some ''u'' \<rparr> \<rparr>]]) =
     \<lparr> outcome = Rejected (Message ''Export task failed: T.''),
       events = [Post ''getTasks'' (TaskIds [''T'']),
                 ConsoleError ''T'' \<lparr> id_t = ''T'', state = ''success'', status = \<lparr> exportURL = None \<rparr> \<rparr>],
       unhandled = [] \<rparr>
   \<and> poll (JNum 2000) ''T''
     (Inr [\<lparr> id_t = ''T'', state = ''cancelled'', status = \<lparr> exportURL = Some ''u'' \<rparr> \<rparr>] # []) =
     \<lparr> outcome = Rejected (Message ''Export task failed: T.''),
       events = [Post ''getTasks'' (TaskIds [''T'']),
                 ConsoleError ''T'' \<lparr> id_t = ''T'', state = ''cancelled'', status = \<lparr> exportURL = Some ''u'' \<rparr> \<rparr>],
       unhandled = [] \<rparr>"
  using
    poll_terminal_failure [of "''T''"
      "[\<lparr> id_t = ''T'', state = ''success'', status = \<lparr> exportURL = None \<rparr> \<rparr>]"
      "\<lparr> id_t = ''T'', state = ''success'', status = \<lparr> exportURL = None \<rparr> \<rparr>"
      "JNum 2000"
      "[Inr [\<lparr> id_t = ''T'', state = ''success'', status = \<lparr> exportURL = Some ''u'' \<rparr> \<rparr>]]"]
    poll_terminal_failure [of "''T''"
      "[\<lparr> id_t = ''T'', state = ''cancelled'', status = \<lparr> exportURL = Some ''u'' \<rparr> \<rparr>]"
      "\<lparr> id_t = ''T'', state = ''cancelled'', status = \<lparr> exportURL = Some ''u'' \<rparr> \<rparr>"
      "JNum 2000" "[]"]
  by simp

text \<open>
  C8. An input that contains no syntactically valid identifier is one on which the
  resolver finds none; and whenever the resolver finds none, \<open>getTaskId\<close> rejects with the
  invalid-identifier message and has issued no request, and so does the whole
  \<open>getZipUrl\<close>: no event at all has happened.
\<close>

theorem getTaskId_invalid_id_no_request:
  "(\<not> contains_id idOrUrl \<longrightarrow> validateUuid (blockIdFromUrl idOrUrl) = None)
   \<and> (validateUuid (blockIdFromUrl idOrUrl) = None \<longrightarrow>
        getTaskId h this idOrUrl res =
          \<lparr> outcome = Rejected (Message (''Invalid URL or blockId: '' @ idOrUrl)),
            events = [], unhandled = [] \<rparr>
        \<and> getZipUrl h this idOrUrl w =
          \<lparr> outcome = Rejected (Message (''Invalid URL or blockId: '' @ idOrUrl)),
            events = [], unhandled = [] \<rparr>)"
proof (intro conjI impI)
  assume "\<not> contains_id idOrUrl"
  then show "validateUuid (blockIdFromUrl idOrUrl) = None"
    using resolver_contains_id by (cases "validateUuid (blockIdFromUrl idOrUrl)") auto
next
  assume n: "validateUuid (blockIdFromUrl idOrUrl) = None"
  then show "getTaskId h this idOrUrl res =
          \<lparr> outcome = Rejected (Message (''Invalid URL or blockId: '' @ idOrUrl)),
            events = [], unhandled = [] \<rparr>"
    by (simp add: getTaskId_def)
  from n show "getZipUrl h this idOrUrl w =
          \<lparr> outcome = Rejected (Message (''Invalid URL or blockId: '' @ idOrUrl)),
            events = [], unhandled = [] \<rparr>"
    by (simp add: getTaskId_def getZipUrl_def then_run_def)
qed

theorem getTaskId_invalid_id_no_request_witness:
  "\<not> contains_id ''my-page''
   \<and> validateUuid (blockIdFromUrl ''my-page'') = None
   \<and> getTaskId (\<lambda>r. Map.empty) an_exporter ''my-page'' (Inr ''T'') =
       \<lparr> outcome = Rejected (Message ''Invalid URL or blockId: my-page''),
         events = [], unhandled = [] \<rparr>"
proof -
  have n: "\<not> contains_id ''my-page''"
    by (simp add: contains_id_def is_hex_def)
  from getTaskId_invalid_id_no_request [of "''my-page''" "\<lambda>r. Map.empty" an_exporter "Inr ''T''"] n
  show ?thesis by simp
qed

text \<open>
  C9. On an input made of hexadecimal characters and dashes only, with exactly 32
  hexadecimal characters, the resolver returns those characters lowercased, the dashes
  removed: 32 characters, each a digit or one of \<open>a\<close> to \<open>f\<close>. Two such inputs that
  differ only in where the dashes are and in letter case resolve to the same identifier.
\<close>

theorem resolver_normalises:
  assumes "list_all (\<lambda>c. is_hex c \<or> c = CHR ''-'') s" and "length (filter is_hex s) = 32"
  shows "validateUuid (blockIdFromUrl s) = Some (map lower (filter is_hex s))
       \<and> length (map lower (filter is_hex s)) = 32
       \<and> list_all (\<lambda>c. c \<in> set ''0123456789abcdef'') (map lower (filter is_hex s))
       \<and> (\<forall>s'. list_all (\<lambda>c. is_hex c \<or> c = CHR ''-'') s'
                 \<and> map lower (filter is_hex s') = map lower (filter is_hex s)
              \<longrightarrow> validateUuid (blockIdFromUrl s') = validateUuid (blockIdFromUrl s))"
proof (intro conjI allI impI)
  show r: "validateUuid (blockIdFromUrl s) = Some (map lower (filter is_hex s))"
    using assms by (rule resolve_bare)
  show "length (map lower (filter is_hex s)) = 32"
    using assms(2) by simp
  show "list_all (\<lambda>c. c \<in> set ''0123456789abcdef'') (map lower (filter is_hex s))"
    unfolding list_all_iff using lower_hex by auto
  fix s'
  assume a: "list_all (\<lambda>c. is_hex c \<or> c = CHR ''-'') s'
             \<and> map lower (filter is_hex s') = map lower (filter is_hex s)"
  then have "length (map lower (filter is_hex s')) = length (map lower (filter is_hex s))"
    by simp
  with assms(2) have "length (filter is_hex s') = 32" by simp
  with a have "validateUuid (blockIdFromUrl s') = Some (map lower (filter is_hex s'))"
    by (simp add: resolve_bare)
  with a r show "validateUuid (blockIdFromUrl s') = validateUuid (blockIdFromUrl s)"
    by simp
qed

theorem resolver_normalises_witness:
  "validateUuid (blockIdFromUrl ''83715D77-03EE-4b86-99b5-e659a4712dd8'')
     = Some ''83715d7703ee4b8699b5e659a4712dd8''
   \<and> validateUuid (blockIdFromUrl ''83715d7703ee4b8699b5e659a4712DD8'')
     = validateUuid (blockIdFromUrl ''83715D77-03EE-4b86-99b5-e659a4712dd8'')"
proof -
  have a: "list_all (\<lambda>c. is_hex c \<or> c = CHR ''-'') ''83715D77-03EE-4b86-99b5-e659a4712dd8''"
    by (simp add: is_hex_def)
  have b: "length (filter is_hex ''83715D77-03EE-4b86-99b5-e659a4712dd8'') = 32"
    by (simp add: is_hex_def)
  have c: "list_all (\<lambda>c. is_hex c \<or> c = CHR ''-'') ''83715d7703ee4b8699b5e659a4712DD8''
           \<and> map lower (filter is_hex ''83715d7703ee4b8699b5e659a4712DD8'')
              = map lower (filter is_hex ''83715D77-03EE-4b86-99b5-e659a4712dd8'')"
    by (simp add: is_hex_def lower_def)
  have d: "map lower (filter is_hex ''83715D77-03EE-4b86-99b5-e659a4712dd8'')
             = ''83715d7703ee4b8699b5e659a4712dd8''"
    by (simp add: is_hex_def lower_def)
  note t = resolver_normalises [OF a b]
  from t have "validateUuid (blockIdFromUrl ''83715D77-03EE-4b86-99b5-e659a4712dd8'')
      = Some (map lower (filter is_hex ''83715D77-03EE-4b86-99b5-e659a4712dd8''))"
    by (rule conjunct1)
  then have r: "validateUuid (blockIdFromUrl ''83715D77-03EE-4b86-99b5-e659a4712dd8'')
      = Some ''83715d7703ee4b8699b5e659a4712dd8''"
    unfolding d .
  from t [THEN conjunct2, THEN conjunct2, THEN conjunct2, THEN spec, THEN mp, OF c] r
  show ?thesis
    by (rule conjI [rotated])
qed

text \<open>
  C10. When the answer to a status query has a record with the polled task id, \<open>getTask\<close>
  returns such a record of the answer and the iteration throws nothing. When it has
  none, \<open>getTask\<close> returns \<open>undefined\<close> and the iteration ends in the \<open>TypeError\<close> of
  reading \<open>state\<close> of it: no \<open>resolve\<close>, no \<open>reject\<close>, no new timer, so the promise stays
  pending. And the loop's only rejection, the task-failed message, is reached only
  through an answer that has a record with the polled id.
\<close>

theorem poll_needs_matching_record:
  "((\<exists>t \<in> set results. id_t t = taskId) \<longrightarrow>
      (\<exists>t. outcome (getTask taskId (Inr results)) = Fulfilled (Some t)
           \<and> t \<in> set results \<and> id_t t = taskId)
      \<and> unhandled (poll iv taskId [Inr results]) = [])
   \<and> ((\<forall>t \<in> set results. id_t t \<noteq> taskId) \<longrightarrow>
        outcome (getTask taskId (Inr results)) = Fulfilled None
        \<and> poll iv taskId (Inr results # ress) =
            \<lparr> outcome = Pending, events = [Post ''getTasks'' (TaskIds [taskId])],
              unhandled = [TypeError ''Cannot read properties of undefined (reading 'state')''] \<rparr>)
   \<and> (outcome (poll iv taskId answers) = Rejected e \<longrightarrow>
        e = Message (''Export task failed: '' @ taskId @ ''.'')
        \<and> (\<exists>rs t. Inr rs \<in> set answers \<and> t \<in> set rs \<and> id_t t = taskId))"
proof (intro conjI impI)
  assume "\<exists>t \<in> set results. id_t t = taskId"
  then obtain t where f: "find (\<lambda>t. id_t t = taskId) results = Some t"
    by (cases "find (\<lambda>t. id_t t = taskId) results") (auto simp: find_None_iff)
  moreover from this have "t \<in> set results \<and> id_t t = taskId"
    by (auto simp: find_Some_iff)
  ultimately show "\<exists>t. outcome (getTask taskId (Inr results)) = Fulfilled (Some t)
                      \<and> t \<in> set results \<and> id_t t = taskId"
    by (auto simp: getTask_def)
  from f show "unhandled (poll iv taskId [Inr results]) = []"
    by (simp add: poll_Inr)
next
  assume "\<forall>t \<in> set results. id_t t \<noteq> taskId"
  then have n: "find (\<lambda>t. id_t t = taskId) results = None"
    by (simp add: find_None_iff)
  then show "outcome (getTask taskId (Inr results)) = Fulfilled None"
    by (simp add: getTask_def)
  from n show "poll iv taskId (Inr results # ress) =
            \<lparr> outcome = Pending, events = [Post ''getTasks'' (TaskIds [taskId])],
              unhandled = [TypeError ''Cannot read properties of undefined (reading 'state')''] \<rparr>"
    by (simp add: poll_Inr)
next
  assume r: "outcome (poll iv taskId answers) = Rejected e"
  from poll_Rejected [OF r] show "e = Message (''Export task failed: '' @ taskId @ ''.'')"
    by simp
  from poll_Rejected [OF r]
  show "\<exists>rs t. Inr rs \<in> set answers \<and> t \<in> set rs \<and> id_t t = taskId"
    by simp
qed

theorem poll_needs_matching_record_witness:
  "outcome (getTask ''T'' (Inr [\<lparr> id_t = ''T'', state = ''failure'', status = \<lparr> exportURL = None \<rparr> \<rparr>]))
     = Fulfilled (Some \<lparr> id_t = ''T'', state = ''failure'', status = \<lparr> exportURL = None \<rparr> \<rparr>)
   \<and> poll (JNum 2000) ''T''
        (Inr [\<lparr> id_t = ''U'', state = ''failure'', status = \<lparr> exportURL = None \<rparr> \<rparr>] # []) =
        \<lparr> outcome = Pending, events = [Post ''getTasks'' (TaskIds [''T''])],
          unhandled = [TypeError ''Cannot read properties of undefined (reading 'state')''] \<rparr>
   \<and> outcome (poll (JNum 2000) ''T''
        [Inr [\<lparr> id_t = ''T'', state = ''failure'', status = \<lparr> exportURL = None \<rparr> \<rparr>]])
      = Rejected (Message ''Export task failed: T.'')"
proof -
  let ?t = "\<lparr> id_t = ''T'', state = ''failure'', status = \<lparr> exportURL = None \<rparr> \<rparr>"
  let ?u = "\<lparr> id_t = ''U'', state = ''failure'', status = \<lparr> exportURL = None \<rparr> \<rparr>"
  have r: "outcome (poll (JNum 2000) ''T'' [Inr [?t]]) = Rejected (Message ''Export task failed: T.'')"
    by (simp add: poll_Inr opt_str_def)
  from poll_needs_matching_record [of "[?t]" "''T''" "JNum 2000" "[]" "[Inr [?t]]"
      "Message ''Export task failed: T.''"]
    poll_needs_matching_record [of "[?u]" "''T''" "JNum 2000" "[]" "[Inr [?t]]"
      "Message ''Export task failed: T.''"] r
  show ?thesis by simp
qed

end
